theory Spec2Isabelle
  imports Complex_Main "HOL-Library.AList" "HOL-Library.Multiset"
begin

section \<open>The order-status aggregator (services/status-service/main.go)\<close>

text \<open>
  The development embeds the state store of the status service and its query functions.
  Conventions of the embedding:
  \<^item> \<open>time.Time\<close> is an integer: nanoseconds since the zero time
    (January 1, year 1, 00:00:00 UTC); \<open>time.Now()\<close> is an argument of the operation
    that reads the clock.
  \<^item> \<open>float64\<close> amounts decoded from JSON are finite and are kept as rationals; sums and
    quotients are exact (rounding is not modelled). The results of a float64 division,
    which may be infinite or not a number, are values of the datatype \<open>float64\<close>.
  \<^item> The Go map \<open>orders\<close> is an association list with the keys in the order in which
    \<open>range\<close> visits them. Go leaves that order open, so every statement about a query
    is made for an arbitrary list.
  \<^item> The mutex \<open>mu\<close> serialises the operations; each operation is one state transformer.
\<close>

subsection \<open>Decoded JSON\<close>

datatype json = JNull | JBool bool | JNum rat | JStr string
  | JArr "json list" | JObj "(string \<times> json) list"

text \<open>A decoded message, Go's \<open>map[string]interface{}\<close>.\<close>

type_synonym payload = "(string \<times> json) list"

text \<open>The type assertions \<open>v.(string)\<close> and \<open>v.(float64)\<close> on a looked-up entry.\<close>

fun as_string :: "json option \<Rightarrow> string option" where
  "as_string (Some (JStr s)) = Some s"
| "as_string _ = None"

fun as_float64 :: "json option \<Rightarrow> rat option" where
  "as_float64 (Some (JNum x)) = Some x"
| "as_float64 _ = None"

text \<open>Go's conversion \<open>int(f)\<close> truncates towards zero.\<close>

definition int_of_float64 :: "rat \<Rightarrow> int" where
  "int_of_float64 x = (if 0 \<le> x then \<lfloor>x\<rfloor> else \<lceil>x\<rceil>)"

subsection \<open>Time\<close>

type_synonym Time = int

definition IsZero :: "Time \<Rightarrow> bool" where
  "IsZero t = (t = 0)"

definition Before :: "Time \<Rightarrow> Time \<Rightarrow> bool" where
  "Before t u = (t < u)"

definition After :: "Time \<Rightarrow> Time \<Rightarrow> bool" where
  "After t u = (u < t)"

subsection \<open>Data model\<close>

record EventRecord =
  EventType :: string
  Data :: payload
  Timestamp :: Time

text \<open>
  \<open>Data\<close> holds the payload itself: the source stores \<open>json.Marshal data\<close>, and decoding
  that text gives the payload back.
\<close>

record OrderStatus =
  OrderID :: string
  ProductID :: string
  Quantity :: int
  Status :: string
  Events :: "EventRecord list"
  LastUpdated :: Time
  TrackingNumber :: string
  PaymentAmount :: rat

type_synonym conn = nat

text \<open>
  \<open>wire\<close> and \<open>closed\<close> are not fields of the Go struct: they record the effects on the
  websocket connections, the messages written with success (in order) and the connections
  closed.
\<close>

record StatusManager =
  orders :: "(string \<times> OrderStatus) list"
  clients :: "string \<rightharpoonup> conn list"
  wire :: "(conn \<times> OrderStatus) list"
  closed :: "conn list"

definition NewStatusManager :: StatusManager where
  "NewStatusManager = \<lparr>orders = [], clients = Map.empty, wire = [], closed = []\<rparr>"

text \<open>
  The orders of the store in the order in which a \<open>for _, v := range sm.orders\<close> loop
  visits them.
\<close>

definition range_orders :: "StatusManager \<Rightarrow> OrderStatus list" where
  "range_orders sm = map snd (orders sm)"

subsection \<open>Applying an event\<close>

text \<open>The order materialised for an unseen identifier; the other fields are Go's zero values.\<close>

definition new_order :: "string \<Rightarrow> OrderStatus" where
  "new_order orderID =
     \<lparr>OrderID = orderID, ProductID = [], Quantity = 0, Status = ''created'', Events = [],
      LastUpdated = 0, TrackingNumber = [], PaymentAmount = 0\<rparr>"

text \<open>The \<open>switch eventType\<close> of \<open>UpdateOrderStatus\<close>.\<close>

definition switch_eventType :: "string \<Rightarrow> payload \<Rightarrow> OrderStatus \<Rightarrow> OrderStatus" where
  "switch_eventType eventType data order =
     (if eventType = ''OrderCreated'' then
        (let o1 = (case as_string (map_of data ''product_id'') of
                     Some productID \<Rightarrow> order\<lparr>ProductID := productID\<rparr>
                   | None \<Rightarrow> order);
             o2 = (case as_float64 (map_of data ''quantity'') of
                     Some quantity \<Rightarrow> o1\<lparr>Quantity := int_of_float64 quantity\<rparr>
                   | None \<Rightarrow> o1)
         in o2\<lparr>Status := ''created''\<rparr>)
      else if eventType = ''InventoryConfirmed'' then order\<lparr>Status := ''inventory_confirmed''\<rparr>
      else if eventType = ''InventoryRejected'' then order\<lparr>Status := ''inventory_rejected''\<rparr>
      else if eventType = ''PaymentCompleted'' then
        (let o1 = order\<lparr>Status := ''payment_completed''\<rparr>
         in case as_float64 (map_of data ''amount'') of
              Some amount \<Rightarrow> o1\<lparr>PaymentAmount := amount\<rparr>
            | None \<Rightarrow> o1)
      else if eventType = ''PaymentFailed'' then order\<lparr>Status := ''payment_failed''\<rparr>
      else if eventType = ''NotificationSent'' then order\<lparr>Status := ''notification_sent''\<rparr>
      else if eventType = ''Shipped'' then
        (let o1 = order\<lparr>Status := ''shipped''\<rparr>
         in case as_string (map_of data ''tracking_number'') of
              Some trackingNumber \<Rightarrow> o1\<lparr>TrackingNumber := trackingNumber\<rparr>
            | None \<Rightarrow> o1)
      else order)"

text \<open>
  \<open>notifyClients\<close>: the snapshot is written to every connection registered for the order;
  \<open>wr c\<close> tells whether \<open>WriteMessage\<close> on \<open>c\<close> succeeds. A connection whose write fails
  is closed and leaves the registry.
\<close>

definition notifyClients ::
  "(conn \<Rightarrow> bool) \<Rightarrow> string \<Rightarrow> OrderStatus \<Rightarrow> StatusManager \<Rightarrow> StatusManager" where
  "notifyClients wr orderID order sm =
     (case clients sm orderID of
        None \<Rightarrow> sm
      | Some cs \<Rightarrow>
          sm\<lparr>clients := (clients sm)(orderID \<mapsto> filter wr cs),
             wire := wire sm @ map (\<lambda>c. (c, order)) (filter wr cs),
             closed := closed sm @ filter (\<lambda>c. \<not> wr c) cs\<rparr>)"

text \<open>
  \<open>UpdateOrderStatus\<close>; \<open>t1\<close> and \<open>t2\<close> are the two readings of \<open>time.Now()\<close>, for the
  event record and for \<open>LastUpdated\<close>.
\<close>

definition UpdateOrderStatus ::
  "(conn \<Rightarrow> bool) \<Rightarrow> Time \<Rightarrow> Time \<Rightarrow> string \<Rightarrow> string \<Rightarrow> payload \<Rightarrow> StatusManager
     \<Rightarrow> StatusManager" where
  "UpdateOrderStatus wr t1 t2 orderID eventType data sm =
     (let order0 = (case map_of (orders sm) orderID of
                      Some order \<Rightarrow> order
                    | None \<Rightarrow> new_order orderID);
          event = \<lparr>EventType = eventType, Data = data, Timestamp = t1\<rparr>;
          order1 = order0\<lparr>Events := Events order0 @ [event], LastUpdated := t2\<rparr>;
          order2 = switch_eventType eventType data order1
      in notifyClients wr orderID order2
           (sm\<lparr>orders := AList.update orderID order2 (orders sm)\<rparr>))"

text \<open>
  An applied event: the two clock readings, the order identifier, the event kind and the
  payload. The ingestion workers apply events one at a time, in the order in which they
  take the lock.
\<close>

record Applied =
  at_event :: Time
  at_update :: Time
  for_order :: string
  kind :: string
  body :: payload

fun apply_events :: "(conn \<Rightarrow> bool) \<Rightarrow> Applied list \<Rightarrow> StatusManager \<Rightarrow> StatusManager" where
  "apply_events wr [] sm = sm"
| "apply_events wr (e # es) sm =
     apply_events wr es
       (UpdateOrderStatus wr (at_event e) (at_update e) (for_order e) (kind e) (body e) sm)"

text \<open>The history recorded for an identifier (empty when the store has no such order).\<close>

definition events_of :: "StatusManager \<Rightarrow> string \<Rightarrow> EventRecord list" where
  "events_of sm orderID =
     (case map_of (orders sm) orderID of None \<Rightarrow> [] | Some order \<Rightarrow> Events order)"

definition record_of :: "Applied \<Rightarrow> EventRecord" where
  "record_of e = \<lparr>EventType = kind e, Data = body e, Timestamp = at_event e\<rparr>"

text \<open>
  The transition table of the specification (section 4.1), with the event kinds under the
  names the producers give them.
\<close>

definition transition_table :: "string \<rightharpoonup> string" where
  "transition_table = map_of
     [(''OrderCreated'', ''created''),
      (''InventoryConfirmed'', ''inventory_confirmed''),
      (''InventoryRejected'', ''inventory_rejected''),
      (''PaymentCompleted'', ''payment_completed''),
      (''PaymentFailed'', ''payment_failed''),
      (''NotificationSent'', ''notification_sent''),
      (''Shipped'', ''shipped'')]"

subsection \<open>Subscribing\<close>

text \<open>
  \<open>AddClient\<close>: the connection is registered, and the current snapshot is written to it
  when the store holds the order. The result of that write is ignored by the source; a
  failed write delivers nothing.
\<close>

definition AddClient :: "(conn \<Rightarrow> bool) \<Rightarrow> string \<Rightarrow> conn \<Rightarrow> StatusManager \<Rightarrow> StatusManager" where
  "AddClient wr orderID c sm =
     (let cs = (case clients sm orderID of None \<Rightarrow> [] | Some cs \<Rightarrow> cs);
          sm1 = sm\<lparr>clients := (clients sm)(orderID \<mapsto> cs @ [c])\<rparr>
      in case map_of (orders sm1) orderID of
           Some order \<Rightarrow> if wr c then sm1\<lparr>wire := wire sm1 @ [(c, order)]\<rparr> else sm1
         | None \<Rightarrow> sm1)"

text \<open>The messages a connection has received, in order.\<close>

definition received :: "StatusManager \<Rightarrow> conn \<Rightarrow> OrderStatus list" where
  "received sm c = map snd (filter (\<lambda>m. fst m = c) (wire sm))"

subsection \<open>Library functions the queries call\<close>

text \<open>
  \<open>sort.Slice\<close> with a \<open>less\<close> function, as the insertion sort Go runs on short
  slices: an element passes the elements that are less than it and stops at the first that
  is not. Go does not promise an order among elements that \<open>less\<close> does not separate;
  the properties proved below (same elements, sortedness) are those of any sort.
\<close>

fun insert_less :: "('a \<Rightarrow> 'a \<Rightarrow> bool) \<Rightarrow> 'a \<Rightarrow> 'a list \<Rightarrow> 'a list" where
  "insert_less lt x [] = [x]"
| "insert_less lt x (y # ys) =
     (if lt y x then y # insert_less lt x ys else x # y # ys)"

fun sort_Slice :: "('a \<Rightarrow> 'a \<Rightarrow> bool) \<Rightarrow> 'a list \<Rightarrow> 'a list" where
  "sort_Slice lt [] = []"
| "sort_Slice lt (x # xs) = insert_less lt x (sort_Slice lt xs)"

text \<open>The comparison all three queries sort with: the later \<open>LastUpdated\<close> first.\<close>

definition newer :: "OrderStatus \<Rightarrow> OrderStatus \<Rightarrow> bool" where
  "newer a b = After (LastUpdated a) (LastUpdated b)"

text \<open>
  \<open>time.Parse\<close> with the layout \<open>2006-01-02\<close>: four digits, a hyphen, two digits, a
  hyphen, two digits and nothing more; the month within 1 to 12 and the day within the
  month. The result is midnight UTC of that day.
\<close>

definition isDigit :: "char \<Rightarrow> bool" where
  "isDigit c = (48 \<le> (of_char c :: nat) \<and> (of_char c :: nat) \<le> 57)"

definition digit :: "char \<Rightarrow> int" where
  "digit c = int (of_char c) - 48"

definition isLeap :: "int \<Rightarrow> bool" where
  "isLeap y = (y mod 4 = 0 \<and> (y mod 100 \<noteq> 0 \<or> y mod 400 = 0))"

definition daysIn :: "int \<Rightarrow> int \<Rightarrow> int" where
  "daysIn m y =
     (if m = 2 then (if isLeap y then 29 else 28)
      else if m = 4 \<or> m = 6 \<or> m = 9 \<or> m = 11 then 30 else 31)"

definition nanos_per_second :: int where
  "nanos_per_second = 1000000000"

text \<open>\<open>time.Date y m d 0 0 0 0 UTC\<close>, in nanoseconds since the zero time.\<close>

definition Date :: "int \<Rightarrow> int \<Rightarrow> int \<Rightarrow> Time" where
  "Date y m d =
     (365 * (y - 1) + (y - 1) div 4 - (y - 1) div 100 + (y - 1) div 400
      + sum_list (map (\<lambda>k. daysIn k y) [1..m - 1]) + (d - 1)) * 86400 * nanos_per_second"

definition time_Parse :: "string \<Rightarrow> Time option" where
  "time_Parse s =
     (if length s = 10
         \<and> isDigit (s ! 0) \<and> isDigit (s ! 1) \<and> isDigit (s ! 2) \<and> isDigit (s ! 3)
         \<and> s ! 4 = CHR ''-'' \<and> isDigit (s ! 5) \<and> isDigit (s ! 6)
         \<and> s ! 7 = CHR ''-'' \<and> isDigit (s ! 8) \<and> isDigit (s ! 9)
      then
        (let y = 1000 * digit (s ! 0) + 100 * digit (s ! 1) + 10 * digit (s ! 2) + digit (s ! 3);
             m = 10 * digit (s ! 5) + digit (s ! 6);
             d = 10 * digit (s ! 8) + digit (s ! 9)
         in if 1 \<le> m \<and> m \<le> 12 \<and> 1 \<le> d \<and> d \<le> daysIn m y then Some (Date y m d) else None)
      else None)"

text \<open>\<open>23*time.Hour + 59*time.Minute + 59*time.Second\<close>.\<close>

definition end_of_day :: int where
  "end_of_day = (23 * 3600 + 59 * 60 + 59) * nanos_per_second"





text \<open>
  Division and multiplication of \<open>float64\<close> values, as far as the statistics use them: a
  finite dividend, a divisor that is a count (so a zero divisor is the positive zero).
\<close>

datatype float64 = Finite rat | PosInf | NegInf | NaN

definition float_div :: "rat \<Rightarrow> rat \<Rightarrow> float64" where
  "float_div x y =
     (if y \<noteq> 0 then Finite (x / y)
      else if 0 < x then PosInf else if x < 0 then NegInf else NaN)"

fun float_mul :: "float64 \<Rightarrow> rat \<Rightarrow> float64" where
  "float_mul (Finite x) y = Finite (x * y)"
| "float_mul PosInf y = (if 0 < y then PosInf else if y < 0 then NegInf else NaN)"
| "float_mul NegInf y = (if 0 < y then NegInf else if y < 0 then PosInf else NaN)"
| "float_mul NaN y = NaN"

subsection \<open>Filtered listing\<close>

record OrderFilter =
  filter_Status :: string
  filter_ProductID :: string
  DateFrom :: string
  DateTo :: string
  Limit :: int
  Offset :: int

text \<open>
  The two bounds \<open>GetFilteredOrders\<close> computes before its loop. A failed parse leaves the
  zero time; for \<open>DateTo\<close> the end of the day is added after the parse, whether it failed
  or not.
\<close>

definition dateFrom_of :: "OrderFilter \<Rightarrow> Time" where
  "dateFrom_of f =
     (if DateFrom f \<noteq> [] then (case time_Parse (DateFrom f) of Some t \<Rightarrow> t | None \<Rightarrow> 0)
      else 0)"

definition dateTo_of :: "OrderFilter \<Rightarrow> Time" where
  "dateTo_of f =
     (if DateTo f \<noteq> []
      then (case time_Parse (DateTo f) of Some t \<Rightarrow> t | None \<Rightarrow> 0) + end_of_day
      else 0)"

text \<open>The loop over the store, with its four \<open>continue\<close> tests.\<close>

fun filter_loop ::
  "OrderFilter \<Rightarrow> Time \<Rightarrow> Time \<Rightarrow> OrderStatus list \<Rightarrow> OrderStatus list \<Rightarrow> OrderStatus list" where
  "filter_loop f dateFrom dateTo [] result = result"
| "filter_loop f dateFrom dateTo (v # vs) result =
     (if filter_Status f \<noteq> [] \<and> Status v \<noteq> filter_Status f
        then filter_loop f dateFrom dateTo vs result
      else if filter_ProductID f \<noteq> [] \<and> ProductID v \<noteq> filter_ProductID f
        then filter_loop f dateFrom dateTo vs result
      else if \<not> IsZero dateFrom \<and> Before (LastUpdated v) dateFrom
        then filter_loop f dateFrom dateTo vs result
      else if \<not> IsZero dateTo \<and> After (LastUpdated v) dateTo
        then filter_loop f dateFrom dateTo vs result
      else filter_loop f dateFrom dateTo vs (result @ [v]))"

definition paginate :: "OrderFilter \<Rightarrow> OrderStatus list \<Rightarrow> OrderStatus list" where
  "paginate f result =
     (if 0 < Offset f \<and> int (length result) \<le> Offset f then []
      else
        (let result1 = (if 0 < Offset f then drop (nat (Offset f)) result else result)
         in if 0 < Limit f \<and> Limit f < int (length result1)
            then take (nat (Limit f)) result1 else result1))"

definition GetFilteredOrders :: "OrderFilter \<Rightarrow> StatusManager \<Rightarrow> OrderStatus list" where
  "GetFilteredOrders f sm =
     paginate f
       (sort_Slice newer (filter_loop f (dateFrom_of f) (dateTo_of f) (range_orders sm) []))"

subsection \<open>Statistics\<close>

text \<open>
  The per-stage processing times of the source are computed from the event timestamps
  alone and do not enter the other fields; they are left out of the record.
\<close>

record OrderStatistics =
  TotalOrders :: nat
  OrdersByStatus :: "string \<rightharpoonup> nat"
  OrdersByProduct :: "string \<rightharpoonup> nat"
  RecentOrders :: "OrderStatus list"
  TotalRevenue :: rat
  AverageOrderValue :: float64
  CompletionRate :: float64

text \<open>\<open>m[k]++\<close> on a Go map of counters.\<close>

definition incr :: "(string \<rightharpoonup> nat) \<Rightarrow> string \<Rightarrow> (string \<rightharpoonup> nat)" where
  "incr m k = m(k \<mapsto> (case m k of None \<Rightarrow> 1 | Some n \<Rightarrow> n + 1))"

text \<open>The variables of the first loop of \<open>GetStatistics\<close>.\<close>

record stats_vars =
  stats :: OrderStatistics
  totalRevenue :: rat
  completedOrders :: nat
  recentOrders :: "OrderStatus list"

definition stats_step :: "OrderStatus \<Rightarrow> stats_vars \<Rightarrow> stats_vars" where
  "stats_step order v =
     (let v1 = v\<lparr>stats := (stats v)\<lparr>TotalOrders := TotalOrders (stats v) + 1,
                      OrdersByStatus := incr (OrdersByStatus (stats v)) (Status order)\<rparr>\<rparr>;
          v2 = (if ProductID order \<noteq> []
                then v1\<lparr>stats := (stats v1)\<lparr>OrdersByProduct :=
                              incr (OrdersByProduct (stats v1)) (ProductID order)\<rparr>\<rparr>
                else v1);
          v3 = (if Status order = ''payment_completed'' \<or> Status order = ''shipped''
                then v2\<lparr>totalRevenue := totalRevenue v2 + PaymentAmount order,
                        completedOrders := completedOrders v2 + 1\<rparr>
                else v2)
      in if length (recentOrders v3) < 10
         then v3\<lparr>recentOrders := recentOrders v3 @ [order]\<rparr> else v3)"

fun stats_loop :: "OrderStatus list \<Rightarrow> stats_vars \<Rightarrow> stats_vars" where
  "stats_loop [] v = v"
| "stats_loop (order # rest) v = stats_loop rest (stats_step order v)"

definition stats_init :: stats_vars where
  "stats_init =
     \<lparr>stats = \<lparr>TotalOrders = 0, OrdersByStatus = Map.empty, OrdersByProduct = Map.empty,
               RecentOrders = [], TotalRevenue = 0, AverageOrderValue = Finite 0,
               CompletionRate = Finite 0\<rparr>,
      totalRevenue = 0, completedOrders = 0, recentOrders = []\<rparr>"

definition GetStatistics :: "StatusManager \<Rightarrow> OrderStatistics" where
  "GetStatistics sm =
     (let v = stats_loop (range_orders sm) stats_init;
          st = (stats v)\<lparr>RecentOrders := sort_Slice newer (recentOrders v),
                         TotalRevenue := totalRevenue v\<rparr>
      in if 0 < TotalOrders st
         then st\<lparr>AverageOrderValue :=
                    float_div (totalRevenue v) (of_nat (completedOrders v)),
                 CompletionRate :=
                    float_mul (float_div (of_nat (completedOrders v)) (of_nat (TotalOrders st)))
                      100\<rparr>
         else st)"

text \<open>The orders that bear revenue: those whose payment is recognised.\<close>

definition revenue_bearing :: "OrderStatus \<Rightarrow> bool" where
  "revenue_bearing order = (Status order = ''payment_completed'' \<or> Status order = ''shipped'')"

subsection \<open>Search\<close>



text \<open>
  The handler \<open>searchOrders\<close>: status 400 for an empty query, otherwise the orders found,
  their count and the query.
\<close>

datatype http_error = StatusBadRequest | StatusNotFound


subsection \<open>Notions used in the statements\<close>


text \<open>
  The predicate of a filter: the status and the product agree with the filter where the
  filter names one, and \<open>LastUpdated\<close> lies in the window between the two bounds, a zero
  bound being no bound.
\<close>

definition satisfies :: "OrderFilter \<Rightarrow> OrderStatus \<Rightarrow> bool" where
  "satisfies f v =
     ((filter_Status f = [] \<or> Status v = filter_Status f)
      \<and> (filter_ProductID f = [] \<or> ProductID v = filter_ProductID f)
      \<and> (dateFrom_of f = 0 \<or> dateFrom_of f \<le> LastUpdated v)
      \<and> (dateTo_of f = 0 \<or> LastUpdated v \<le> dateTo_of f))"



definition status_and_amount :: "OrderStatus \<Rightarrow> string \<times> rat" where
  "status_and_amount order = (Status order, PaymentAmount order)"

definition recognised :: "string \<times> rat \<Rightarrow> bool" where
  "recognised p = (fst p = ''payment_completed'' \<or> fst p = ''shipped'')"

definition id_and_time :: "OrderStatus \<Rightarrow> string \<times> Time" where
  "id_and_time order = (OrderID order, LastUpdated order)"

subsection \<open>Concrete stores\<close>

definition created_event :: "Time \<Rightarrow> string \<Rightarrow> Applied" where
  "created_event t x =
     \<lparr>at_event = t, at_update = t, for_order = x, kind = ''OrderCreated'',
      body = [(''order_id'', JStr x), (''event_type'', JStr ''OrderCreated'')]\<rparr>"


definition rejected_event :: "Time \<Rightarrow> string \<Rightarrow> Applied" where
  "rejected_event t x =
     \<lparr>at_event = t, at_update = t, for_order = x, kind = ''InventoryRejected'',
      body = [(''order_id'', JStr x), (''event_type'', JStr ''InventoryRejected'')]\<rparr>"

text \<open>One order, created on 15 June 2024 at noon UTC.\<close>

definition one_order :: StatusManager where
  "one_order =
     UpdateOrderStatus (\<lambda>c. True)
       (Date 2024 6 15 + 12 * 3600 * nanos_per_second)
       (Date 2024 6 15 + 12 * 3600 * nanos_per_second)
       ''X'' ''OrderCreated'' [(''product_id'', JStr ''product-1''), (''quantity'', JNum 2)]
       NewStatusManager"

definition no_filter :: OrderFilter where
  "no_filter = \<lparr>filter_Status = [], filter_ProductID = [], DateFrom = [], DateTo = [],
     Limit = 0, Offset = 0\<rparr>"


definition rejected_only :: StatusManager where
  "rejected_only = apply_events (\<lambda>c. True) [rejected_event 1 ''C''] NewStatusManager"

text \<open>Eleven orders, created one after the other; \<open>range\<close> visits them in that order.\<close>

definition eleven_orders :: StatusManager where
  "eleven_orders =
     apply_events (\<lambda>c. True)
       [created_event 1 ''o01'', created_event 2 ''o02'', created_event 3 ''o03'',
        created_event 4 ''o04'', created_event 5 ''o05'', created_event 6 ''o06'',
        created_event 7 ''o07'', created_event 8 ''o08'', created_event 9 ''o09'',
        created_event 10 ''o10'', created_event 11 ''o11'']
       NewStatusManager"

section \<open>Properties of event application\<close>

lemma orders_notifyClients: "orders (notifyClients wr orderID order sm) = orders sm"
  by (simp add: notifyClients_def split: option.splits)

lemma Events_switch_eventType: "Events (switch_eventType k d order) = Events order"
  by (simp add: switch_eventType_def Let_def split: option.splits)

lemma lookup_UpdateOrderStatus:
  "map_of (orders (UpdateOrderStatus wr t1 t2 orderID k d sm)) x =
     (if x = orderID then
        Some (switch_eventType k d
               ((case map_of (orders sm) orderID of Some order \<Rightarrow> order
                 | None \<Rightarrow> new_order orderID)
                \<lparr>Events := Events (case map_of (orders sm) orderID of Some order \<Rightarrow> order
                                   | None \<Rightarrow> new_order orderID)
                            @ [\<lparr>EventType = k, Data = d, Timestamp = t1\<rparr>],
                  LastUpdated := t2\<rparr>))
      else map_of (orders sm) x)"
  by (simp add: UpdateOrderStatus_def Let_def orders_notifyClients update_conv')

lemma events_of_UpdateOrderStatus:
  "events_of (UpdateOrderStatus wr t1 t2 orderID k d sm) x =
     (if x = orderID
      then events_of sm x @ [\<lparr>EventType = k, Data = d, Timestamp = t1\<rparr>]
      else events_of sm x)"
  by (simp add: events_of_def lookup_UpdateOrderStatus Events_switch_eventType new_order_def
      split: option.splits)

lemma events_of_apply_events:
  "events_of (apply_events wr es sm) x =
     events_of sm x @ map record_of (filter (\<lambda>e. for_order e = x) es)"
  by (induction es arbitrary: sm) (simp_all add: events_of_UpdateOrderStatus record_of_def)

lemma apply_events_snoc:
  "apply_events wr (es @ [e]) sm =
     UpdateOrderStatus wr (at_event e) (at_update e) (for_order e) (kind e) (body e)
       (apply_events wr es sm)"
  by (induction es arbitrary: sm) simp_all

lemma Status_switch_eventType:
  assumes "transition_table k = Some st"
  shows "Status (switch_eventType k d order) = st"
  using assms
  by (simp add: transition_table_def switch_eventType_def Let_def
      split: if_splits option.splits)

lemma Status_switch_eventType_other:
  assumes "transition_table k = None"
  shows "Status (switch_eventType k d order) = Status order"
  using assms
  by (simp add: transition_table_def switch_eventType_def Let_def
      split: if_splits option.splits)

text \<open>
  C1 (transition determinism). Whatever the store held before and whatever events were
  applied earlier, for this order or for others: when the last event applied to an order
  has a kind of the transition table, the order exists and its status is the status the
  table gives for that kind.
\<close>

theorem status_is_effect_of_last_event:
  assumes "filter (\<lambda>e. for_order e = x) es \<noteq> []"
    and "transition_table (kind (last (filter (\<lambda>e. for_order e = x) es))) = Some st"
  shows "\<exists>order. map_of (orders (apply_events wr es sm)) x = Some order \<and> Status order = st"
  using assms
proof (induction es rule: rev_induct)
  case Nil
  then show ?case by simp
next
  case (snoc e es)
  show ?case
  proof (cases "for_order e = x")
    case True
    with snoc.prems(2) have "transition_table (kind e) = Some st" by simp
    then show ?thesis
      using True
      by (simp add: apply_events_snoc lookup_UpdateOrderStatus Status_switch_eventType)
  next
    case False
    with snoc.prems have "filter (\<lambda>e. for_order e = x) es \<noteq> []"
      and "transition_table (kind (last (filter (\<lambda>e. for_order e = x) es))) = Some st"
      by simp_all
    then have "\<exists>order. map_of (orders (apply_events wr es sm)) x = Some order
        \<and> Status order = st"
      by (rule snoc.IH)
    then show ?thesis
      using False by (simp add: apply_events_snoc lookup_UpdateOrderStatus)
  qed
qed

theorem status_is_effect_of_last_event_witness:
  "\<exists>order.
     map_of (orders (apply_events (\<lambda>c. True)
        [\<lparr>at_event = 1, at_update = 2, for_order = ''X'', kind = ''Shipped'',
          body = [(''tracking_number'', JStr ''TRKABC123'')]\<rparr>,
         \<lparr>at_event = 3, at_update = 4, for_order = ''Y'', kind = ''PaymentFailed'', body = []\<rparr>,
         \<lparr>at_event = 5, at_update = 6, for_order = ''X'', kind = ''InventoryConfirmed'',
          body = []\<rparr>]
        NewStatusManager)) ''X'' = Some order
     \<and> Status order = ''inventory_confirmed''"
  by (rule status_is_effect_of_last_event) (simp_all add: transition_table_def)

text \<open>
  C2 (append-only history). Applying one event, of any kind, to an order extends the
  history of that order by exactly the record of the event and leaves the earlier records
  as they were; the histories of the other orders do not change. Hence a run of events
  extends the history by the records of the events addressed to the order, in the order of
  application, and from the empty store the length of the history is the number of those
  events.
\<close>

theorem events_append_only:
  "events_of (UpdateOrderStatus wr t1 t2 x k d sm) x =
     events_of sm x @ [\<lparr>EventType = k, Data = d, Timestamp = t1\<rparr>]
   \<and> map_of (orders (UpdateOrderStatus wr t1 t2 x k d sm)) x \<noteq> None
   \<and> events_of (apply_events wr es sm) x =
       events_of sm x @ map record_of (filter (\<lambda>e. for_order e = x) es)
   \<and> length (events_of (apply_events wr es NewStatusManager) x) =
       length (filter (\<lambda>e. for_order e = x) es)"
  by (simp add: events_of_UpdateOrderStatus lookup_UpdateOrderStatus events_of_apply_events)
    (simp add: events_of_def NewStatusManager_def)

theorem events_append_only_witness:
  "length (events_of
     (apply_events (\<lambda>c. True)
        [created_event 1 ''X'', rejected_event 2 ''Y'',
         \<lparr>at_event = 3, at_update = 3, for_order = ''X'', kind = ''Refunded'', body = []\<rparr>]
        NewStatusManager) ''X'') = 2"
proof -
  let ?es = "[created_event 1 ''X'', rejected_event 2 ''Y'',
         \<lparr>at_event = 3, at_update = 3, for_order = ''X'', kind = ''Refunded'', body = []\<rparr>]"
  have "length (events_of (apply_events (\<lambda>c. True) ?es NewStatusManager) ''X'') =
      length (filter (\<lambda>e. for_order e = ''X'') ?es)"
    using events_append_only [where x = "''X''" and wr = "\<lambda>c. True" and es = ?es]
    by blast
  also have "\<dots> = 2"
    by (simp add: created_event_def rejected_event_def)
  finally show ?thesis .
qed

text \<open>
  C4, as the specification has it, fails: a payment-completed event that carries the
  amount under \<open>payment_amount\<close> sets the status and leaves the amount of the order at its
  zero value.
\<close>

theorem payment_amount_field_counterexample:
  "map_option (\<lambda>order. (Status order, PaymentAmount order))
     (map_of (orders (UpdateOrderStatus (\<lambda>c. True) 1 2 ''Y'' ''PaymentCompleted''
        [(''order_id'', JStr ''Y''), (''event_type'', JStr ''PaymentCompleted''),
         (''payment_amount'', JNum 10)] NewStatusManager)) ''Y'')
   = Some (''payment_completed'', 0)
   \<and> map_option PaymentAmount
     (map_of (orders (UpdateOrderStatus (\<lambda>c. True) 1 2 ''Y'' ''PaymentCompleted''
        [(''order_id'', JStr ''Y''), (''event_type'', JStr ''PaymentCompleted''),
         (''payment_amount'', JNum 10)] NewStatusManager)) ''Y'')
   \<noteq> Some 10"
  by (simp add: lookup_UpdateOrderStatus NewStatusManager_def switch_eventType_def
      new_order_def)

text \<open>
  C4, amended: the field read is \<open>amount\<close>, the name under which the payment service
  publishes it. A payment-completed event whose payload carries a number under \<open>amount\<close>
  sets the status of the order to \<open>payment_completed\<close> and its payment amount to that
  number.
\<close>

theorem payment_completed_sets_amount:
  assumes "map_of d ''amount'' = Some (JNum a)"
  shows "\<exists>order. map_of (orders (UpdateOrderStatus wr t1 t2 x ''PaymentCompleted'' d sm)) x
           = Some order
         \<and> Status order = ''payment_completed'' \<and> PaymentAmount order = a"
  using assms by (simp add: lookup_UpdateOrderStatus switch_eventType_def)

theorem payment_completed_sets_amount_witness:
  "\<exists>order. map_of (orders (UpdateOrderStatus (\<lambda>c. True) 1 2 ''Y'' ''PaymentCompleted''
        [(''order_id'', JStr ''Y''), (''event_type'', JStr ''PaymentCompleted''),
         (''amount'', JNum 10)] NewStatusManager)) ''Y'' = Some order
     \<and> Status order = ''payment_completed'' \<and> PaymentAmount order = 10"
  by (rule payment_completed_sets_amount) simp

section \<open>Properties of the sort\<close>







section \<open>Properties of the filtered listing\<close>

lemma filter_loop_eq:
  "filter_loop f (dateFrom_of f) (dateTo_of f) vs result = result @ filter (satisfies f) vs"
  by (induction vs arbitrary: result)
    (auto simp: satisfies_def IsZero_def Before_def After_def)

lemma paginate_eq:
  "paginate f xs =
     (let page = drop (nat (Offset f)) xs
      in if 0 < Limit f then take (nat (Limit f)) page else page)"
  by (auto simp: paginate_def Let_def)





text \<open>
  Malformed dates. A \<open>DateFrom\<close> that does not parse leaves the zero bound and filters
  nothing. A \<open>DateTo\<close> that does not parse leaves the bound at the last second of the first
  day of year 1, since the end of the day is added to the zero time as well.
\<close>

lemma malformed_date_from_is_no_filter:
  assumes "time_Parse (DateFrom f) = None"
  shows "GetFilteredOrders f sm = GetFilteredOrders (f\<lparr>DateFrom := []\<rparr>) sm"
proof -
  have "satisfies (f\<lparr>DateFrom := []\<rparr>) = satisfies f"
    using assms by (simp add: fun_eq_iff satisfies_def dateFrom_of_def dateTo_of_def)
  then show ?thesis
    by (simp add: GetFilteredOrders_def filter_loop_eq paginate_eq Let_def)
qed

lemma malformed_date_to_bound:
  assumes "DateTo f \<noteq> []" and "time_Parse (DateTo f) = None"
  shows "dateTo_of f = end_of_day"
  using assms by (simp add: dateTo_of_def)

lemma range_orders_one_order:
  "range_orders one_order =
     [\<lparr>OrderID = ''X'', ProductID = ''product-1'', Quantity = 2, Status = ''created'',
        Events = [\<lparr>EventType = ''OrderCreated'',
                   Data = [(''product_id'', JStr ''product-1''), (''quantity'', JNum 2)],
                   Timestamp = 63854049600000000000\<rparr>],
        LastUpdated = 63854049600000000000, TrackingNumber = [], PaymentAmount = 0\<rparr>]"
  by (simp add: range_orders_def one_order_def UpdateOrderStatus_def NewStatusManager_def
      new_order_def switch_eventType_def notifyClients_def int_of_float64_def Date_def
      daysIn_def isLeap_def nanos_per_second_def upto.simps)

text \<open>
  C5 (malformed date filters) does not hold for \<open>DateTo\<close>: on the store with one order
  updated in June 2024, the filter whose only entry is the malformed \<open>DateTo\<close>
  \<open>31-12-2024\<close> returns nothing, while the same filter with \<open>DateTo\<close> empty returns the
  order.
\<close>

theorem malformed_date_to_empties_result:
  "time_Parse ''31-12-2024'' = None
   \<and> GetFilteredOrders (no_filter\<lparr>DateTo := ''31-12-2024''\<rparr>) one_order = []
   \<and> GetFilteredOrders (no_filter\<lparr>DateTo := []\<rparr>) one_order = range_orders one_order
   \<and> length (range_orders one_order) = 1"
  by (simp add: range_orders_one_order GetFilteredOrders_def no_filter_def dateFrom_of_def
      dateTo_of_def time_Parse_def isDigit_def end_of_day_def nanos_per_second_def
      IsZero_def Before_def After_def paginate_def)

section \<open>Properties of the statistics\<close>

lemma stats_loop_TotalOrders:
  "TotalOrders (stats (stats_loop os v)) = TotalOrders (stats v) + length os"
  by (induction os arbitrary: v) (simp_all add: stats_step_def Let_def)

lemma stats_loop_totalRevenue:
  "totalRevenue (stats_loop os v) =
     totalRevenue v + sum_list (map PaymentAmount (filter revenue_bearing os))"
  by (induction os arbitrary: v) (simp_all add: stats_step_def Let_def revenue_bearing_def)

lemma stats_loop_completedOrders:
  "completedOrders (stats_loop os v) = completedOrders v + length (filter revenue_bearing os)"
  by (induction os arbitrary: v) (simp_all add: stats_step_def Let_def revenue_bearing_def)

lemma stats_loop_recentOrders:
  "recentOrders (stats_loop os v) = recentOrders v @ take (10 - length (recentOrders v)) os"
proof (induction os arbitrary: v)
  case Nil
  show ?case by simp
next
  case (Cons order rest)
  show ?case
  proof (cases "length (recentOrders v) < 10")
    case True
    then have "10 - length (recentOrders v) = Suc (10 - Suc (length (recentOrders v)))"
      by simp
    with True show ?thesis
      by (simp add: Cons.IH stats_step_def Let_def del: One_nat_def)
  next
    case False
    then show ?thesis
      by (simp add: Cons.IH stats_step_def Let_def)
  qed
qed

lemma stats_loop_rates_untouched:
  "AverageOrderValue (stats (stats_loop os v)) = AverageOrderValue (stats v)
   \<and> CompletionRate (stats (stats_loop os v)) = CompletionRate (stats v)"
  by (induction os arbitrary: v) (simp_all add: stats_step_def Let_def)

lemma stats_init_fields:
  "TotalOrders (stats stats_init) = 0" "totalRevenue stats_init = 0"
  "completedOrders stats_init = 0" "recentOrders stats_init = []"
  "AverageOrderValue (stats stats_init) = Finite 0"
  "CompletionRate (stats stats_init) = Finite 0"
  by (simp_all add: stats_init_def)



lemma GetStatistics_RecentOrders:
  "RecentOrders (GetStatistics sm) = sort_Slice newer (take 10 (range_orders sm))"
  by (simp add: GetStatistics_def Let_def stats_loop_recentOrders stats_init_fields)

lemma GetStatistics_AverageOrderValue:
  "AverageOrderValue (GetStatistics sm) =
     (if range_orders sm = [] then Finite 0
      else float_div (sum_list (map PaymentAmount (filter revenue_bearing (range_orders sm))))
             (of_nat (length (filter revenue_bearing (range_orders sm)))))"
  by (simp add: GetStatistics_def Let_def stats_loop_TotalOrders stats_loop_totalRevenue
      stats_loop_completedOrders stats_loop_rates_untouched stats_init_fields)


lemma count_bearing_mset:
  "length (filter revenue_bearing os) =
     size (filter_mset recognised (mset (map status_and_amount os)))"
  by (induction os) (simp_all add: revenue_bearing_def recognised_def status_and_amount_def)







text \<open>
  C10 (the division of the average is guarded by the total only). Whenever the store holds
  an order, the average order value is the float64 quotient of the revenue by the number of
  revenue-bearing orders, whatever that number is; when it is zero the quotient is 0/0 and
  the reported average is not a number.
\<close>

theorem average_division_unguarded:
  assumes "range_orders sm \<noteq> []"
  shows "AverageOrderValue (GetStatistics sm) =
           float_div (sum_list (map PaymentAmount (filter revenue_bearing (range_orders sm))))
             (of_nat (length (filter revenue_bearing (range_orders sm))))
         \<and> (length (filter revenue_bearing (range_orders sm)) = 0 \<longrightarrow>
              AverageOrderValue (GetStatistics sm) = NaN)"
  using assms by (auto simp: GetStatistics_AverageOrderValue float_div_def)

lemma rejected_only_pairs:
  "map status_and_amount (range_orders rejected_only) = [(''inventory_rejected'', 0)]"
  by (simp add: range_orders_def rejected_only_def rejected_event_def UpdateOrderStatus_def
      NewStatusManager_def new_order_def switch_eventType_def notifyClients_def
      status_and_amount_def)

theorem average_division_unguarded_witness:
  "range_orders rejected_only \<noteq> []
   \<and> length (filter revenue_bearing (range_orders rejected_only)) = 0
   \<and> AverageOrderValue (GetStatistics rejected_only) = NaN"
proof -
  have ne: "range_orders rejected_only \<noteq> []"
    using rejected_only_pairs by auto
  have z: "length (filter revenue_bearing (range_orders rejected_only)) = 0"
    unfolding count_bearing_mset rejected_only_pairs by (simp add: recognised_def)
  from average_division_unguarded [OF ne] z
  have "AverageOrderValue (GetStatistics rejected_only) = NaN" by blast
  with ne z show ?thesis by blast
qed

lemma eleven_orders_listing:
  "map id_and_time (range_orders eleven_orders) =
     [(''o01'', 1), (''o02'', 2), (''o03'', 3), (''o04'', 4), (''o05'', 5), (''o06'', 6),
      (''o07'', 7), (''o08'', 8), (''o09'', 9), (''o10'', 10), (''o11'', 11)]"
  by (simp add: range_orders_def eleven_orders_def created_event_def UpdateOrderStatus_def
      NewStatusManager_def new_order_def switch_eventType_def notifyClients_def id_and_time_def)

lemma id_and_time_insert_less:
  "map id_and_time (insert_less newer x xs) =
     insert_less (\<lambda>a b. After (snd a) (snd b)) (id_and_time x) (map id_and_time xs)"
  by (induction xs) (simp_all add: newer_def id_and_time_def)

lemma id_and_time_sort_Slice:
  "map id_and_time (sort_Slice newer xs) =
     sort_Slice (\<lambda>a b. After (snd a) (snd b)) (map id_and_time xs)"
  by (induction xs) (simp_all add: id_and_time_insert_less)

text \<open>
  C8 (recent orders) does not hold: of eleven orders visited oldest first, the list holds
  the ten oldest, sorted, and omits the order updated last.
\<close>

theorem recent_orders_omit_newest:
  "map id_and_time (range_orders eleven_orders) =
     [(''o01'', 1), (''o02'', 2), (''o03'', 3), (''o04'', 4), (''o05'', 5), (''o06'', 6),
      (''o07'', 7), (''o08'', 8), (''o09'', 9), (''o10'', 10), (''o11'', 11)]
   \<and> map id_and_time (RecentOrders (GetStatistics eleven_orders)) =
     [(''o10'', 10), (''o09'', 9), (''o08'', 8), (''o07'', 7), (''o06'', 6), (''o05'', 5),
      (''o04'', 4), (''o03'', 3), (''o02'', 2), (''o01'', 1)]"
  by (simp add: GetStatistics_RecentOrders id_and_time_sort_Slice eleven_orders_listing
      After_def flip: take_map)

section \<open>Properties of the search\<close>







section \<open>Properties of subscribing\<close>

lemma wire_UpdateOrderStatus:
  "\<exists>order'. map_of (orders (UpdateOrderStatus wr t1 t2 x k d sm)) x = Some order'
     \<and> wire (UpdateOrderStatus wr t1 t2 x k d sm) =
         wire sm @ map (\<lambda>c. (c, order'))
                    (filter wr (case clients sm x of None \<Rightarrow> [] | Some cs \<Rightarrow> cs))"
  by (simp add: UpdateOrderStatus_def Let_def notifyClients_def update_conv'
      split: option.splits)

lemma clients_AddClient:
  "clients (AddClient wr x c sm) x =
     Some ((case clients sm x of None \<Rightarrow> [] | Some cs \<Rightarrow> cs) @ [c])"
  by (simp add: AddClient_def Let_def split: option.splits)

text \<open>
  C9 (snapshot on connect), amended for identifiers without an order. When the store
  holds the order and the write succeeds, connecting writes exactly one message, the
  current snapshot, to the new connection. When the store holds no order for the
  identifier, connecting writes nothing. In both cases the connection joins the registry
  of the identifier, and the pushes of a later event for the identifier follow everything
  written at connect, one to each registered connection whose write succeeds.
\<close>

theorem snapshot_on_connect:
  "(map_of (orders sm) x = Some order \<and> wr c \<longrightarrow>
       wire (AddClient wr x c sm) = wire sm @ [(c, order)])
   \<and> (map_of (orders sm) x = None \<longrightarrow> wire (AddClient wr x c sm) = wire sm)
   \<and> clients (AddClient wr x c sm) x =
       Some ((case clients sm x of None \<Rightarrow> [] | Some cs \<Rightarrow> cs) @ [c])
   \<and> (\<exists>order'.
         map_of (orders (UpdateOrderStatus wr t1 t2 x k d (AddClient wr x c sm))) x = Some order'
         \<and> wire (UpdateOrderStatus wr t1 t2 x k d (AddClient wr x c sm)) =
             wire (AddClient wr x c sm)
             @ map (\<lambda>c'. (c', order'))
                 (filter wr ((case clients sm x of None \<Rightarrow> [] | Some cs \<Rightarrow> cs) @ [c])))"
proof -
  have "\<exists>order'.
         map_of (orders (UpdateOrderStatus wr t1 t2 x k d (AddClient wr x c sm))) x = Some order'
         \<and> wire (UpdateOrderStatus wr t1 t2 x k d (AddClient wr x c sm)) =
             wire (AddClient wr x c sm)
             @ map (\<lambda>c'. (c', order'))
                 (filter wr ((case clients sm x of None \<Rightarrow> [] | Some cs \<Rightarrow> cs) @ [c]))"
    using wire_UpdateOrderStatus [of wr t1 t2 x k d "AddClient wr x c sm"]
    by (simp only: clients_AddClient option.case)
  then show ?thesis
    by (simp add: clients_AddClient) (simp add: AddClient_def Let_def)
qed

theorem snapshot_on_connect_witness:
  "\<exists>order. map_of (orders one_order) ''X'' = Some order
     \<and> wire (AddClient (\<lambda>c. True) ''X'' 7 one_order) = wire one_order @ [(7, order)]"
proof -
  obtain order where o: "map_of (orders one_order) ''X'' = Some order"
    by (simp add: one_order_def lookup_UpdateOrderStatus)
  from snapshot_on_connect [of one_order "''X''" order "\<lambda>c. True" 7] o
  have "wire (AddClient (\<lambda>c. True) ''X'' 7 one_order) = wire one_order @ [(7, order)]"
    by blast
  with o show ?thesis by blast
qed

text \<open>
  C9 as stated fails for an identifier no event has been observed for: the subscriber is
  registered and receives nothing.
\<close>

theorem no_snapshot_for_unseen_order_counterexample:
  "map_of (orders NewStatusManager) ''X'' = None
   \<and> wire (AddClient (\<lambda>c. True) ''X'' 7 NewStatusManager) = []
   \<and> received (AddClient (\<lambda>c. True) ''X'' 7 NewStatusManager) 7 = []
   \<and> clients (AddClient (\<lambda>c. True) ''X'' 7 NewStatusManager) ''X'' = Some [7]"
  by (simp add: AddClient_def NewStatusManager_def received_def)

end
